theory Spec2Isabelle
  imports Main
begin

section \<open>The QML endpoint discovery element of Qt OPC UA\<close>

text \<open>
  A shallow embedding of \<^verbatim>\<open>src/imports/opcua/opcuaendpointdiscovery.cpp\<close>: the class
  \<^verbatim>\<open>OpcUaEndpointDiscovery\<close> with its members as a record, each member function as a
  function from the object's state to its new state, and the signals it emits and the
  requests it sends to the backend client as two logs kept in the state.
\<close>

subsection \<open>Status codes\<close>

text \<open>
  Modelled from the spec: the enumeration \<^verbatim>\<open>QOpcUa::UaStatusCode\<close> and the wrapper class
  \<^verbatim>\<open>OpcUaStatus\<close> with its predicates \<^verbatim>\<open>isBad\<close> and \<^verbatim>\<open>isGood\<close> are declared outside the
  source file. The spec gives the status as "one of {Good, GoodPending (async in
  progress), BadNotConnected, BadInvalidArgument, Bad<other-backend-codes>}"; the
  constructors carry the names the source file uses for them, and the code of any other
  bad status is kept as a number. A status is good when it is one of the two good codes
  and bad otherwise.
\<close>

datatype UaStatusCode =
    Good
  | GoodCompletesAsynchronously
  | BadNotConnected
  | BadInvalidArgument
  | BadOther nat

datatype OpcUaStatus = OpcUaStatus (statusCode: UaStatusCode)

fun isBad :: "OpcUaStatus \<Rightarrow> bool" where
  "isBad (OpcUaStatus Good) = False"
| "isBad (OpcUaStatus GoodCompletesAsynchronously) = False"
| "isBad (OpcUaStatus BadNotConnected) = True"
| "isBad (OpcUaStatus BadInvalidArgument) = True"
| "isBad (OpcUaStatus (BadOther code)) = True"

fun isGood :: "OpcUaStatus \<Rightarrow> bool" where
  "isGood (OpcUaStatus Good) = True"
| "isGood (OpcUaStatus GoodCompletesAsynchronously) = True"
| "isGood (OpcUaStatus BadNotConnected) = False"
| "isGood (OpcUaStatus BadInvalidArgument) = False"
| "isGood (OpcUaStatus (BadOther code)) = False"

subsection \<open>Endpoint descriptions and addresses\<close>

text \<open>
  Modelled from the spec: \<^verbatim>\<open>QOpcUaEndpointDescription\<close> is declared outside the source
  file; the spec calls it an "opaque record describing one reachable server endpoint (URL,
  security settings, etc.), passed through unmodified". The default-constructed
  description, which \<^verbatim>\<open>at\<close> returns for an index beyond the end, has empty fields.
\<close>

datatype QOpcUaEndpointDescription =
  QOpcUaEndpointDescription (endpointUrl: string) (securityPolicy: string)

definition QOpcUaEndpointDescription_default :: QOpcUaEndpointDescription where
  "QOpcUaEndpointDescription_default = QOpcUaEndpointDescription [] []"

text \<open>
  The server URL is a \<^verbatim>\<open>QString\<close> and the URL echoed by the backend a \<^verbatim>\<open>QUrl\<close>; the source
  compares the two through the implicit conversion of the string. Both are strings
  here, and the conversion is the identity.
\<close>

type_synonym QUrl = string

subsection \<open>The collaborators\<close>

text \<open>
  Connection objects (\<^verbatim>\<open>OpcUaConnection *\<close>) and backend clients (\<^verbatim>\<open>QOpcUaClient *\<close>) are
  identified by numbers; a null pointer is \<open>None\<close>. What the element reads of them is the
  \<^verbatim>\<open>m_client\<close> member of each connection and the process-wide default connection
  \<^verbatim>\<open>OpcUaConnection::defaultConnection()\<close>.
\<close>

type_synonym conn = nat
type_synonym client = nat

record connections =
  m_client :: "conn \<Rightarrow> client option"
  defaultConnection :: "conn option"

subsection \<open>The element's state\<close>

datatype signal =
    ServerUrlChanged string
  | ConnectionChanged conn
  | EndpointsChanged
  | CountChanged
  | StatusChanged

text \<open>
  The five data members, the two sets of signal connections the element makes at run time
  (\<^verbatim>\<open>backendChanged\<close> of a connection to \<^verbatim>\<open>connectSignals\<close>, and
  \<^verbatim>\<open>endpointsRequestFinished\<close> of a client to \<^verbatim>\<open>handleEndpoints\<close>, both with
  \<^verbatim>\<open>Qt::UniqueConnection\<close>), the signals emitted so far in the order of their \<^verbatim>\<open>emit\<close>
  statements, and the calls of \<^verbatim>\<open>requestEndpoints\<close> made so far with the client addressed.
\<close>

record discovery =
  m_serverUrl :: string
  m_connection :: "conn option"
  m_endpoints :: "QOpcUaEndpointDescription list"
  m_status :: OpcUaStatus
  m_componentCompleted :: bool
  backendChanged_slots :: "conn list"
  endpointsRequestFinished_slots :: "client list"
  emitted :: "signal list"
  requested :: "(client \<times> QUrl) list"

text \<open>
  Modelled from the spec: the member initialisers are in the header, outside the source
  file. "ResultSet and StatusValue are created empty/neutral at construction", the
  connection "may be absent (unset)", and construction is not yet complete.
\<close>

definition init :: discovery where
  "init = \<lparr>m_serverUrl = [], m_connection = None, m_endpoints = [],
            m_status = OpcUaStatus Good, m_componentCompleted = False,
            backendChanged_slots = [], endpointsRequestFinished_slots = [],
            emitted = [], requested = []\<rparr>"

definition emit :: "signal \<Rightarrow> discovery \<Rightarrow> discovery" where
  "emit sig s = s\<lparr>emitted := emitted s @ [sig]\<rparr>"

subsection \<open>The member functions\<close>

text \<open>
  The constructor connects \<^verbatim>\<open>serverUrlChanged\<close> and \<^verbatim>\<open>connectionChanged\<close> to
  \<^verbatim>\<open>startRequestEndpoints\<close>; sender and receiver are the same object, so the slot runs inside
  the \<^verbatim>\<open>emit\<close>. Hence \<^verbatim>\<open>setConnection\<close> calls \<^verbatim>\<open>startRequestEndpoints\<close>, which calls
  \<^verbatim>\<open>connection\<close>, which calls \<^verbatim>\<open>setConnection\<close> when no connection is set: the four
  functions are mutually recursive, as in the source.
\<close>

function connectSignals :: "connections \<Rightarrow> discovery \<Rightarrow> discovery"
  and startRequestEndpoints :: "connections \<Rightarrow> discovery \<Rightarrow> discovery"
  and setConnection :: "connections \<Rightarrow> conn option \<Rightarrow> discovery \<Rightarrow> discovery"
  and connection :: "connections \<Rightarrow> discovery \<Rightarrow> conn option \<times> discovery"
where
  "connectSignals w s =
     (case connection w s of (conn, s1) \<Rightarrow>
        (case conn of
           None \<Rightarrow> s1
         | Some c \<Rightarrow>
             (case m_client w c of
                None \<Rightarrow> s1
              | Some cl \<Rightarrow>
                  s1\<lparr>endpointsRequestFinished_slots :=
                        List.insert cl (endpointsRequestFinished_slots s1)\<rparr>)))"
| "startRequestEndpoints w s =
     (if \<not> m_componentCompleted s then s
      else if m_serverUrl s = [] then s
      else
        let s1 = s\<lparr>m_endpoints := []\<rparr> in
        if m_connection s1 = None then snd (connection w s1)
        else
          (case connection w s1 of (conn, s2) \<Rightarrow>
             let s3 =
               (case conn of
                  None \<Rightarrow> s2\<lparr>m_status := OpcUaStatus BadNotConnected\<rparr>
                | Some c \<Rightarrow>
                    (case m_client w c of
                       None \<Rightarrow> s2\<lparr>m_status := OpcUaStatus BadNotConnected\<rparr>
                     | Some cl \<Rightarrow>
                         if m_serverUrl s2 = []
                         then s2\<lparr>m_status := OpcUaStatus BadInvalidArgument\<rparr>
                         else s2\<lparr>m_status := OpcUaStatus GoodCompletesAsynchronously,
                                 requested := requested s2 @ [(cl, m_serverUrl s2)]\<rparr>))
             in emit StatusChanged (emit EndpointsChanged s3)))"
| "setConnection w connection' s =
     (if connection' = m_connection s \<or> connection' = None then s
      else
        (case connection' of
           None \<Rightarrow> s
         | Some new \<Rightarrow>
             let s1 = (case m_connection s of
                         None \<Rightarrow> s
                       | Some old \<Rightarrow>
                           s\<lparr>backendChanged_slots := removeAll old (backendChanged_slots s)\<rparr>);
                 s2 = s1\<lparr>m_connection := Some new\<rparr>;
                 s3 = s2\<lparr>backendChanged_slots := List.insert new (backendChanged_slots s2)\<rparr>;
                 s4 = connectSignals w s3;
                 s5 = emit (ConnectionChanged new) s4
             in startRequestEndpoints w s5))"
| "connection w s =
     (let s1 = (if m_connection s = None then setConnection w (defaultConnection w) s else s)
      in (m_connection s1, s1))"
  by pat_completeness auto

definition setServerUrl :: "connections \<Rightarrow> string \<Rightarrow> discovery \<Rightarrow> discovery" where
  "setServerUrl w serverUrl s =
     (if serverUrl = m_serverUrl s then s
      else
        let s1 = s\<lparr>m_serverUrl := serverUrl\<rparr>;
            s2 = emit (ServerUrlChanged (m_serverUrl s1)) s1
        in startRequestEndpoints w s2)"

definition count :: "discovery \<Rightarrow> int" where
  "count s = int (length (m_endpoints s))"

text \<open>
  \<^verbatim>\<open>QVector::at(i)\<close> requires \<open>0 \<le> i < size()\<close>: outside this range it fails an assertion in
  a debug build and reads outside the vector otherwise. The model returns a fault there.
\<close>

datatype fault = IndexOutOfRange

definition QVector_at :: "'a list \<Rightarrow> int \<Rightarrow> fault + 'a" where
  "QVector_at xs i = (if 0 \<le> i \<and> i < int (length xs) then Inr (xs ! nat i) else Inl IndexOutOfRange)"

definition at :: "int \<Rightarrow> discovery \<Rightarrow> fault + QOpcUaEndpointDescription" where
  "at row s =
     (if row \<ge> count s then Inr QOpcUaEndpointDescription_default
      else QVector_at (m_endpoints s) row)"

definition status :: "discovery \<Rightarrow> OpcUaStatus" where
  "status s = m_status s"

definition handleEndpoints ::
  "QOpcUaEndpointDescription list \<Rightarrow> UaStatusCode \<Rightarrow> QUrl \<Rightarrow> discovery \<Rightarrow> discovery" where
  "handleEndpoints endpoints code requestUrl s =
     (if requestUrl \<noteq> m_serverUrl s then s
      else
        let s1 = s\<lparr>m_status := OpcUaStatus code\<rparr> in
        if isBad (m_status s1) then emit StatusChanged s1
        else
          let s2 = s1\<lparr>m_endpoints := endpoints\<rparr>
          in emit StatusChanged (emit CountChanged (emit EndpointsChanged s2)))"

definition componentComplete :: "connections \<Rightarrow> discovery \<Rightarrow> discovery" where
  "componentComplete w s = startRequestEndpoints w (s\<lparr>m_componentCompleted := True\<rparr>)"

subsection \<open>Sequences of calls\<close>

datatype call =
    SetServerUrl string
  | SetConnection "conn option"
  | ComponentComplete
  | StartRequestEndpoints
  | HandleEndpoints "QOpcUaEndpointDescription list" UaStatusCode QUrl

fun step :: "connections \<Rightarrow> call \<Rightarrow> discovery \<Rightarrow> discovery" where
  "step w (SetServerUrl url) s = setServerUrl w url s"
| "step w (SetConnection c) s = setConnection w c s"
| "step w ComponentComplete s = componentComplete w s"
| "step w StartRequestEndpoints s = startRequestEndpoints w s"
| "step w (HandleEndpoints endpoints code requestUrl) s = handleEndpoints endpoints code requestUrl s"

fun run :: "connections \<Rightarrow> call list \<Rightarrow> discovery \<Rightarrow> discovery" where
  "run w [] s = s"
| "run w (c # cs) s = run w cs (step w c s)"

subsection \<open>What a sequence of setter calls leaves behind\<close>

text \<open>
  The calls made while the element is being constructed are those of the two setters.
  \<open>final_target\<close> and \<open>final_connection\<close> follow the spec's words "the final values set":
  the address of the last \<^verbatim>\<open>setServerUrl\<close>, and the connection of the last \<^verbatim>\<open>setConnection\<close>
  with a connection that is not null. \<open>resolved\<close> is the connection a discovery uses: the
  one set, or else the default connection. \<open>request_for\<close> is the request a discovery for an
  address sends through it: none for an empty address, for no connection or for a
  connection without a backend client.
\<close>

fun is_setter :: "call \<Rightarrow> bool" where
  "is_setter (SetServerUrl url) = True"
| "is_setter (SetConnection c) = True"
| "is_setter ComponentComplete = False"
| "is_setter StartRequestEndpoints = False"
| "is_setter (HandleEndpoints endpoints code requestUrl) = False"

fun final_target :: "call list \<Rightarrow> string \<Rightarrow> string" where
  "final_target [] url = url"
| "final_target (SetServerUrl url' # cs) url = final_target cs url'"
| "final_target (c # cs) url = final_target cs url"

fun final_connection :: "call list \<Rightarrow> conn option \<Rightarrow> conn option" where
  "final_connection [] c = c"
| "final_connection (SetConnection (Some c') # cs) c = final_connection cs (Some c')"
| "final_connection (x # cs) c = final_connection cs c"

definition resolved :: "connections \<Rightarrow> conn option \<Rightarrow> conn option" where
  "resolved w c = (case c of None \<Rightarrow> defaultConnection w | Some c' \<Rightarrow> Some c')"

definition request_for :: "connections \<Rightarrow> conn option \<Rightarrow> string \<Rightarrow> (client \<times> QUrl) list" where
  "request_for w c url =
     (if url = [] then []
      else (case resolved w c of
              None \<Rightarrow> []
            | Some c' \<Rightarrow> (case m_client w c' of None \<Rightarrow> [] | Some cl \<Rightarrow> [(cl, url)])))"

subsection \<open>Example configurations\<close>

text \<open>
  Connection 1 has the backend client 7 and connection 2 has none. \<open>live\<close> registers no
  default connection, \<open>live_default\<close> registers connection 1.
\<close>

definition live :: connections where
  "live = \<lparr>m_client = (\<lambda>c. if c = 1 then Some 7 else None), defaultConnection = None\<rparr>"

definition live_default :: connections where
  "live_default = \<lparr>m_client = (\<lambda>c. if c = 1 then Some 7 else None), defaultConnection = Some 1\<rparr>"

definition ep1 :: QOpcUaEndpointDescription where
  "ep1 = QOpcUaEndpointDescription ''opc.tcp://a:4840'' ''None''"

text \<open>
  \<open>pending\<close>: a connection with a backend is set, an address is set and construction has
  completed, so one request is in flight. \<open>answered\<close>: its completion has arrived with one
  endpoint. \<open>target_cleared\<close>: the address has then been set to the empty string.
  \<open>superseded_trace\<close>: the address goes from a to b and back to a, a request is sent each
  time; the first request for a completes with an endpoint, the second one with a failure.
  \<open>unresolved\<close>: an address is set and construction has completed, but no connection is set
  and none is registered as default. \<open>no_backend_setup\<close>: the setter calls of a construction
  that ends with a connection lacking a backend client.
\<close>

definition pending_trace :: "call list" where
  "pending_trace = [SetConnection (Some 1), SetServerUrl ''opc.tcp://a'', ComponentComplete]"

definition pending :: discovery where
  "pending = run live pending_trace init"

definition answered :: discovery where
  "answered = handleEndpoints [ep1] Good ''opc.tcp://a'' pending"

definition target_cleared :: discovery where
  "target_cleared = setServerUrl live [] answered"

definition superseded_trace :: "call list" where
  "superseded_trace =
     [SetConnection (Some 1), SetServerUrl ''opc.tcp://a'', ComponentComplete,
      SetServerUrl ''opc.tcp://b'', SetServerUrl ''opc.tcp://a'',
      HandleEndpoints [ep1] Good ''opc.tcp://a'',
      HandleEndpoints [] (BadOther 1) ''opc.tcp://a'']"

definition unresolved :: discovery where
  "unresolved = run live [SetServerUrl ''opc.tcp://a'', ComponentComplete] init"

definition no_backend_setup :: "call list" where
  "no_backend_setup = [SetServerUrl ''opc.tcp://a'', SetConnection (Some 2)]"


text \<open>
  \<open>setup_trace\<close>: the setter calls of a construction that sets address and connection
  twice each, and a null connection in between.
\<close>

definition setup_trace :: "call list" where
  "setup_trace =
     [SetServerUrl ''opc.tcp://b'', SetConnection (Some 2), SetConnection None,
      SetServerUrl ''opc.tcp://a'', SetConnection (Some 1)]"

subsection \<open>Termination of the mutual recursion\<close>

text \<open>
  \<^verbatim>\<open>connection\<close> calls \<^verbatim>\<open>setConnection\<close> only while no connection is set, and
  \<^verbatim>\<open>setConnection\<close> stores a connection before it calls the others, so the calls nest at
  most once. The second call that \<^verbatim>\<open>setConnection\<close> makes receives the state the first
  returned, so the proof needs that \<^verbatim>\<open>connectSignals\<close> keeps a connection that is set.
\<close>

definition call_rank ::
  "((connections \<times> discovery) + (connections \<times> discovery)) +
   ((connections \<times> conn option \<times> discovery) + (connections \<times> discovery)) \<Rightarrow> nat" where
  "call_rank x =
     (case x of
        Inl (Inl (w, s)) \<Rightarrow> (if m_connection s = None then 4 else 1)
      | Inl (Inr (w, s)) \<Rightarrow> (if m_connection s = None then 4 else 1)
      | Inr (Inl (w, c, s)) \<Rightarrow> 2
      | Inr (Inr (w, s)) \<Rightarrow> (if m_connection s = None then 3 else 0))"

lemma connection_set_partial:
  assumes "connectSignals_startRequestEndpoints_setConnection_connection_dom (Inr (Inr (w, s)))"
    and "m_connection s = Some c"
  shows "connection w s = (Some c, s)"
  using assms by (simp add: connection.psimps)

lemma connectSignals_keeps_connection_partial:
  assumes d: "connectSignals_startRequestEndpoints_setConnection_connection_dom (Inl (Inl (w, s)))"
    and c: "m_connection s = Some c"
  shows "m_connection (connectSignals w s) = Some c"
proof -
  have "connectSignals_startRequestEndpoints_setConnection_connection_dom (Inr (Inr (w, s)))"
    using d connectSignals_startRequestEndpoints_setConnection_connection_rel.intros(1)
    by (rule accp_downward)
  then have "connection w s = (Some c, s)"
    using c by (rule connection_set_partial)
  then show ?thesis
    using d c by (simp add: connectSignals.psimps split: option.splits)
qed

termination connectSignals
proof (relation "measure call_rank", goal_cases)
  case 1
  show ?case by simp
next
  case (2 w s)
  show ?case by (simp add: call_rank_def)
next
  case (3 w s x)
  then show ?case by (simp add: call_rank_def)
next
  case (4 w s x)
  then show ?case by (simp add: call_rank_def)
next
  case (5 w connection' s new x xa xb)
  then show ?case by (simp add: call_rank_def)
next
  case (6 w connection' s new x xa xb xc xd)
  then have "m_connection xb = Some new"
    by simp
  with 6 have "m_connection xc = Some new"
    using connectSignals_keeps_connection_partial [of w xb new] by simp
  with 6 show ?case
    by (simp add: call_rank_def emit_def)
next
  case (7 w s)
  then show ?case by (simp add: call_rank_def)
qed

declare connectSignals.simps [simp del] startRequestEndpoints.simps [simp del]
  setConnection.simps [simp del] connection.simps [simp del]

subsection \<open>The member functions in closed form\<close>

lemma connection_set: "m_connection s = Some c \<Longrightarrow> connection w s = (Some c, s)"
  by (simp add: connection.simps)

lemma connection_unset:
  "m_connection s = None \<Longrightarrow>
   connection w s = (m_connection (setConnection w (defaultConnection w) s),
                     setConnection w (defaultConnection w) s)"
  by (simp add: connection.simps Let_def)

lemma connectSignals_set:
  "m_connection s = Some c \<Longrightarrow>
   connectSignals w s =
     (case m_client w c of
        None \<Rightarrow> s
      | Some cl \<Rightarrow> s\<lparr>endpointsRequestFinished_slots :=
                        List.insert cl (endpointsRequestFinished_slots s)\<rparr>)"
  by (simp add: connectSignals.simps connection_set)

lemma startRequestEndpoints_not_completed:
  "\<not> m_componentCompleted s \<Longrightarrow> startRequestEndpoints w s = s"
  by (simp add: startRequestEndpoints.simps)

lemma startRequestEndpoints_empty_url:
  "m_serverUrl s = [] \<Longrightarrow> startRequestEndpoints w s = s"
  by (simp add: startRequestEndpoints.simps)

lemma startRequestEndpoints_set:
  assumes "m_componentCompleted s" and "m_serverUrl s \<noteq> []" and "m_connection s = Some c"
  shows "startRequestEndpoints w s =
     emit StatusChanged (emit EndpointsChanged
       (case m_client w c of
          None \<Rightarrow> s\<lparr>m_endpoints := [], m_status := OpcUaStatus BadNotConnected\<rparr>
        | Some cl \<Rightarrow> s\<lparr>m_endpoints := [],
                         m_status := OpcUaStatus GoodCompletesAsynchronously,
                         requested := requested s @ [(cl, m_serverUrl s)]\<rparr>))"
proof -
  have "connection w (s\<lparr>m_endpoints := []\<rparr>) = (Some c, s\<lparr>m_endpoints := []\<rparr>)"
    using assms(3) by (simp add: connection_set)
  then show ?thesis
    using assms by (simp add: startRequestEndpoints.simps Let_def split: option.splits)
qed

lemma startRequestEndpoints_unset:
  assumes "m_componentCompleted s" and "m_serverUrl s \<noteq> []" and "m_connection s = None"
  shows "startRequestEndpoints w s =
           setConnection w (defaultConnection w) (s\<lparr>m_endpoints := []\<rparr>)"
  using assms by (simp add: startRequestEndpoints.simps Let_def connection_unset)

lemma setConnection_same: "c = m_connection s \<Longrightarrow> setConnection w c s = s"
  by (simp add: setConnection.simps)

lemma setConnection_null: "setConnection w None s = s"
  by (simp add: setConnection.simps)

lemma setConnection_new:
  assumes "Some new \<noteq> m_connection s"
  shows "setConnection w (Some new) s =
     startRequestEndpoints w
       (emit (ConnectionChanged new)
         (case m_client w new of
            None \<Rightarrow>
              s\<lparr>m_connection := Some new,
                 backendChanged_slots :=
                   List.insert new (case m_connection s of None \<Rightarrow> backendChanged_slots s
                      | Some old \<Rightarrow> removeAll old (backendChanged_slots s))\<rparr>
          | Some cl \<Rightarrow>
              s\<lparr>m_connection := Some new,
                 backendChanged_slots :=
                   List.insert new (case m_connection s of None \<Rightarrow> backendChanged_slots s
                      | Some old \<Rightarrow> removeAll old (backendChanged_slots s)),
                 endpointsRequestFinished_slots :=
                   List.insert cl (endpointsRequestFinished_slots s)\<rparr>))"
  using assms
  by (simp add: setConnection.simps Let_def connectSignals_set split: option.splits)

lemma emit_fields [simp]:
  "m_serverUrl (emit sig s) = m_serverUrl s"
  "m_connection (emit sig s) = m_connection s"
  "m_endpoints (emit sig s) = m_endpoints s"
  "m_status (emit sig s) = m_status s"
  "m_componentCompleted (emit sig s) = m_componentCompleted s"
  "requested (emit sig s) = requested s"
  "emitted (emit sig s) = emitted s @ [sig]"
  by (simp_all add: emit_def)

lemma startRequestEndpoints_default:
  assumes "m_componentCompleted s" and "m_serverUrl s \<noteq> []" and "m_connection s = None"
    and "defaultConnection w = Some d"
  shows "startRequestEndpoints w s =
     emit StatusChanged (emit EndpointsChanged (emit (ConnectionChanged d)
       (case m_client w d of
          None \<Rightarrow>
            s\<lparr>m_connection := Some d, m_endpoints := [],
               m_status := OpcUaStatus BadNotConnected,
               backendChanged_slots := List.insert d (backendChanged_slots s)\<rparr>
        | Some cl \<Rightarrow>
            s\<lparr>m_connection := Some d, m_endpoints := [],
               m_status := OpcUaStatus GoodCompletesAsynchronously,
               backendChanged_slots := List.insert d (backendChanged_slots s),
               endpointsRequestFinished_slots := List.insert cl (endpointsRequestFinished_slots s),
               requested := requested s @ [(cl, m_serverUrl s)]\<rparr>)))"
proof (cases "m_client w d")
  case None
  with assms show ?thesis
    by (simp add: startRequestEndpoints_unset setConnection_new
        startRequestEndpoints_set [where c = d] emit_def)
next
  case (Some cl)
  with assms show ?thesis
    by (simp add: startRequestEndpoints_unset setConnection_new
        startRequestEndpoints_set [where c = d] emit_def)
qed

lemma startRequestEndpoints_no_default:
  assumes "m_componentCompleted s" and "m_serverUrl s \<noteq> []" and "m_connection s = None"
    and "defaultConnection w = None"
  shows "startRequestEndpoints w s = s\<lparr>m_endpoints := []\<rparr>"
  using assms by (simp add: startRequestEndpoints_unset setConnection_null)


lemma startRequestEndpoints_serverUrl [simp]:
  "m_serverUrl (startRequestEndpoints w s) = m_serverUrl s"
proof (cases "m_componentCompleted s \<and> m_serverUrl s \<noteq> []")
  case False
  then show ?thesis
    by (auto simp: startRequestEndpoints_not_completed startRequestEndpoints_empty_url)
next
  case True
  show ?thesis
  proof (cases "m_connection s")
    case (Some c)
    with True show ?thesis
      by (simp add: startRequestEndpoints_set split: option.splits)
  next
    case None
    with True show ?thesis
      by (cases "defaultConnection w")
        (simp_all add: startRequestEndpoints_no_default startRequestEndpoints_default
          split: option.splits)
  qed
qed

lemma startRequestEndpoints_completed [simp]:
  "m_componentCompleted (startRequestEndpoints w s) = m_componentCompleted s"
proof (cases "m_componentCompleted s \<and> m_serverUrl s \<noteq> []")
  case False
  then show ?thesis
    by (auto simp: startRequestEndpoints_not_completed startRequestEndpoints_empty_url)
next
  case True
  show ?thesis
  proof (cases "m_connection s")
    case (Some c)
    with True show ?thesis
      by (simp add: startRequestEndpoints_set split: option.splits)
  next
    case None
    with True show ?thesis
      by (cases "defaultConnection w")
        (simp_all add: startRequestEndpoints_no_default startRequestEndpoints_default
          split: option.splits)
  qed
qed

lemma startRequestEndpoints_endpoints:
  "m_endpoints (startRequestEndpoints w s) =
     (if m_componentCompleted s \<and> m_serverUrl s \<noteq> [] then [] else m_endpoints s)"
proof (cases "m_componentCompleted s \<and> m_serverUrl s \<noteq> []")
  case False
  then show ?thesis
    by (auto simp: startRequestEndpoints_not_completed startRequestEndpoints_empty_url)
next
  case True
  show ?thesis
  proof (cases "m_connection s")
    case (Some c)
    with True show ?thesis
      by (simp add: startRequestEndpoints_set split: option.splits)
  next
    case None
    with True show ?thesis
      by (cases "defaultConnection w")
        (simp_all add: startRequestEndpoints_no_default startRequestEndpoints_default
          split: option.splits)
  qed
qed

lemma startRequestEndpoints_requested:
  "requested (startRequestEndpoints w s) =
     requested s @
       (if m_componentCompleted s then request_for w (m_connection s) (m_serverUrl s) else [])"
proof (cases "m_componentCompleted s \<and> m_serverUrl s \<noteq> []")
  case False
  then show ?thesis
    by (auto simp: startRequestEndpoints_not_completed startRequestEndpoints_empty_url
        request_for_def)
next
  case True
  show ?thesis
  proof (cases "m_connection s")
    case (Some c)
    with True show ?thesis
      by (simp add: startRequestEndpoints_set request_for_def resolved_def split: option.splits)
  next
    case None
    with True show ?thesis
      by (cases "defaultConnection w")
        (simp_all add: startRequestEndpoints_no_default startRequestEndpoints_default
          request_for_def resolved_def split: option.splits)
  qed
qed

lemma startRequestEndpoints_connection:
  "m_connection (startRequestEndpoints w s) =
     (if m_componentCompleted s \<and> m_serverUrl s \<noteq> [] then resolved w (m_connection s)
      else m_connection s)"
proof (cases "m_componentCompleted s \<and> m_serverUrl s \<noteq> []")
  case False
  then show ?thesis
    by (auto simp: startRequestEndpoints_not_completed startRequestEndpoints_empty_url)
next
  case True
  show ?thesis
  proof (cases "m_connection s")
    case (Some c)
    with True show ?thesis
      by (simp add: startRequestEndpoints_set resolved_def split: option.splits)
  next
    case None
    with True show ?thesis
      by (cases "defaultConnection w")
        (simp_all add: startRequestEndpoints_no_default startRequestEndpoints_default
          resolved_def split: option.splits)
  qed
qed

lemma setConnection_serverUrl [simp]: "m_serverUrl (setConnection w c s) = m_serverUrl s"
proof (cases "c = m_connection s \<or> c = None")
  case True
  then show ?thesis by (auto simp: setConnection_same setConnection_null)
next
  case False
  then obtain new where "c = Some new" and "Some new \<noteq> m_connection s" by auto
  then show ?thesis
    by (simp add: setConnection_new split: option.splits)
qed

lemma setConnection_completed [simp]:
  "m_componentCompleted (setConnection w c s) = m_componentCompleted s"
proof (cases "c = m_connection s \<or> c = None")
  case True
  then show ?thesis by (auto simp: setConnection_same setConnection_null)
next
  case False
  then obtain new where "c = Some new" and "Some new \<noteq> m_connection s" by auto
  then show ?thesis
    by (simp add: setConnection_new split: option.splits)
qed

lemma setConnection_endpoints:
  "m_endpoints (setConnection w c s) =
     (if c = m_connection s \<or> c = None \<or> \<not> m_componentCompleted s \<or> m_serverUrl s = []
      then m_endpoints s else [])"
proof (cases "c = m_connection s \<or> c = None")
  case True
  then show ?thesis by (auto simp: setConnection_same setConnection_null)
next
  case False
  then obtain new where "c = Some new" and "Some new \<noteq> m_connection s" by auto
  then show ?thesis
    by (auto simp: setConnection_new startRequestEndpoints_endpoints split: option.splits)
qed

lemma setConnection_requested:
  "requested (setConnection w c s) =
     requested s @
       (if c = m_connection s \<or> c = None \<or> \<not> m_componentCompleted s then []
        else request_for w c (m_serverUrl s))"
proof (cases "c = m_connection s \<or> c = None")
  case True
  then show ?thesis by (auto simp: setConnection_same setConnection_null)
next
  case False
  then obtain new where "c = Some new" and "Some new \<noteq> m_connection s" by auto
  then show ?thesis
    by (auto simp: setConnection_new startRequestEndpoints_requested split: option.splits)
qed

lemma setConnection_connection:
  "m_connection (setConnection w c s) =
     (if c = None then m_connection s else c)"
proof (cases "c = m_connection s \<or> c = None")
  case True
  then show ?thesis by (auto simp: setConnection_same setConnection_null)
next
  case False
  then obtain new where "c = Some new" and "Some new \<noteq> m_connection s" by auto
  then show ?thesis
    by (auto simp: setConnection_new startRequestEndpoints_connection resolved_def
        split: option.splits)
qed

lemma setServerUrl_serverUrl [simp]: "m_serverUrl (setServerUrl w url s) = url"
  by (simp add: setServerUrl_def Let_def)

lemma setServerUrl_completed [simp]:
  "m_componentCompleted (setServerUrl w url s) = m_componentCompleted s"
  by (simp add: setServerUrl_def Let_def)

lemma setServerUrl_endpoints:
  "m_endpoints (setServerUrl w url s) =
     (if url = m_serverUrl s \<or> \<not> m_componentCompleted s \<or> url = [] then m_endpoints s else [])"
  by (simp add: setServerUrl_def Let_def startRequestEndpoints_endpoints)

lemma setServerUrl_requested:
  "requested (setServerUrl w url s) =
     requested s @
       (if url = m_serverUrl s \<or> \<not> m_componentCompleted s then []
        else request_for w (m_connection s) url)"
  by (simp add: setServerUrl_def Let_def startRequestEndpoints_requested)

lemma setServerUrl_connection:
  "m_connection (setServerUrl w url s) =
     (if url = m_serverUrl s \<or> \<not> m_componentCompleted s \<or> url = [] then m_connection s
      else resolved w (m_connection s))"
  by (simp add: setServerUrl_def Let_def startRequestEndpoints_connection)

lemma isGood_not_isBad: "isGood st = (\<not> isBad st)"
  by (cases st rule: isBad.cases) simp_all

subsection \<open>Evaluating the examples\<close>

lemmas member_simps = connectSignals.simps startRequestEndpoints.simps setConnection.simps
  connection.simps setServerUrl_def componentComplete_def handleEndpoints_def emit_def


lemma pending_value:
  "pending = \<lparr>m_serverUrl = ''opc.tcp://a'', m_connection = Some 1, m_endpoints = [],
      m_status = OpcUaStatus GoodCompletesAsynchronously, m_componentCompleted = True,
      backendChanged_slots = [1], endpointsRequestFinished_slots = [7],
      emitted = [ConnectionChanged 1, ServerUrlChanged ''opc.tcp://a'', EndpointsChanged, StatusChanged],
      requested = [(7, ''opc.tcp://a'')]\<rparr>"
  by (simp add: pending_def pending_trace_def live_def init_def member_simps)

lemma answered_value:
  "answered = \<lparr>m_serverUrl = ''opc.tcp://a'', m_connection = Some 1, m_endpoints = [ep1],
      m_status = OpcUaStatus Good, m_componentCompleted = True,
      backendChanged_slots = [1], endpointsRequestFinished_slots = [7],
      emitted = [ConnectionChanged 1, ServerUrlChanged ''opc.tcp://a'', EndpointsChanged, StatusChanged,
                 EndpointsChanged, CountChanged, StatusChanged],
      requested = [(7, ''opc.tcp://a'')]\<rparr>"
  by (simp add: answered_def pending_value handleEndpoints_def emit_def)

lemma target_cleared_value:
  "target_cleared = \<lparr>m_serverUrl = [], m_connection = Some 1, m_endpoints = [ep1],
      m_status = OpcUaStatus Good, m_componentCompleted = True,
      backendChanged_slots = [1], endpointsRequestFinished_slots = [7],
      emitted = [ConnectionChanged 1, ServerUrlChanged ''opc.tcp://a'', EndpointsChanged, StatusChanged,
                 EndpointsChanged, CountChanged, StatusChanged, ServerUrlChanged []],
      requested = [(7, ''opc.tcp://a'')]\<rparr>"
  by (simp add: target_cleared_def answered_value setServerUrl_def startRequestEndpoints.simps emit_def)

lemma unresolved_value:
  "unresolved = \<lparr>m_serverUrl = ''opc.tcp://a'', m_connection = None, m_endpoints = [],
      m_status = OpcUaStatus Good, m_componentCompleted = True,
      backendChanged_slots = [], endpointsRequestFinished_slots = [],
      emitted = [ServerUrlChanged ''opc.tcp://a''],
      requested = []\<rparr>"
  by (simp add: unresolved_def live_def init_def member_simps)

subsection \<open>Completions, by the status delivered\<close>

lemma handleEndpoints_accepted:
  assumes "requestUrl = m_serverUrl s" and "\<not> isBad (OpcUaStatus code)"
  shows "handleEndpoints endpoints code requestUrl s =
           s\<lparr>m_status := OpcUaStatus code, m_endpoints := endpoints,
              emitted := emitted s @ [EndpointsChanged, CountChanged, StatusChanged]\<rparr>"
  using assms by (simp add: handleEndpoints_def emit_def)

lemma handleEndpoints_refused:
  assumes "requestUrl = m_serverUrl s" and "isBad (OpcUaStatus code)"
  shows "handleEndpoints endpoints code requestUrl s =
           s\<lparr>m_status := OpcUaStatus code, emitted := emitted s @ [StatusChanged]\<rparr>"
  using assms by (simp add: handleEndpoints_def emit_def)

subsection \<open>Setter calls before construction completes\<close>

lemma setter_step:
  assumes "\<not> m_componentCompleted s" and "is_setter c"
  shows "\<not> m_componentCompleted (step w c s) \<and>
         requested (step w c s) = requested s \<and>
         m_serverUrl (step w c s) = final_target [c] (m_serverUrl s) \<and>
         m_connection (step w c s) = final_connection [c] (m_connection s)"
proof (cases c)
  case (SetServerUrl url)
  with assms show ?thesis
    by (simp add: setServerUrl_requested setServerUrl_connection)
next
  case (SetConnection c')
  with assms show ?thesis
    by (cases c') (simp_all add: setConnection_requested setConnection_connection)
qed (use assms in simp_all)

lemma final_target_Cons:
  "final_target (c # cs) url = final_target cs (final_target [c] url)"
  by (cases c) simp_all

lemma final_connection_Cons:
  "final_connection (c # cs) k = final_connection cs (final_connection [c] k)"
proof (cases c)
  case (SetConnection c')
  then show ?thesis by (cases c') simp_all
qed simp_all

lemma setter_run:
  assumes "\<not> m_componentCompleted s" and "list_all is_setter cs"
  shows "\<not> m_componentCompleted (run w cs s) \<and>
         requested (run w cs s) = requested s \<and>
         m_serverUrl (run w cs s) = final_target cs (m_serverUrl s) \<and>
         m_connection (run w cs s) = final_connection cs (m_connection s)"
  using assms
proof (induction cs arbitrary: s)
  case Nil
  then show ?case by simp
next
  case (Cons c cs)
  from Cons.prems have c: "is_setter c" and cs: "list_all is_setter cs"
    by simp_all
  note first = setter_step [OF Cons.prems(1) c, of w]
  from first have "\<not> m_componentCompleted (step w c s)"
    by simp
  from Cons.IH [OF this cs] first show ?case
    by (simp add: final_target_Cons [of c cs] final_connection_Cons [of c cs])
qed

lemma componentComplete_requested:
  "requested (componentComplete w s) =
     requested s @ request_for w (m_connection s) (m_serverUrl s)"
  by (simp add: componentComplete_def startRequestEndpoints_requested)

section \<open>The claims\<close>

text \<open>
  C1, as stated, fails: in \<open>superseded_trace\<close> three requests are sent, the first one for
  address a is answered with an endpoint and the last one for the same address with a
  failure; the endpoint stays while the status is bad. A single completion that delivers
  an endpoint with the status \<open>GoodCompletesAsynchronously\<close> is accepted as well, and the
  status is then not \<open>Good\<close> either.
\<close>

theorem endpoints_filled_when_status_good_counterexample:
  "m_endpoints (run live superseded_trace init) \<noteq> [] \<and>
   m_status (run live superseded_trace init) \<noteq> OpcUaStatus Good \<and>
   requested (run live superseded_trace init) =
     [(7, ''opc.tcp://a''), (7, ''opc.tcp://b''), (7, ''opc.tcp://a'')] \<and>
   m_endpoints (run live (pending_trace @
      [HandleEndpoints [ep1] GoodCompletesAsynchronously ''opc.tcp://a'']) init) \<noteq> [] \<and>
   m_status (run live (pending_trace @
      [HandleEndpoints [ep1] GoodCompletesAsynchronously ''opc.tcp://a'']) init) \<noteq> OpcUaStatus Good"
  by (simp add: superseded_trace_def pending_trace_def live_def init_def member_simps)

text \<open>
  C1, amended: whenever one of the five calls leaves a result set that is not empty and
  differs from the one before the call, the call is a completion delivered to
  \<^verbatim>\<open>handleEndpoints\<close> for the current address whose status is not bad, the result set is the
  list delivered and the status is the one delivered. Every other call keeps the result
  set or empties it.
\<close>

theorem endpoints_filled_only_by_accepted_completion:
  assumes "m_endpoints (step w c s) \<noteq> []"
    and "m_endpoints (step w c s) \<noteq> m_endpoints s"
  shows "\<exists>endpoints code.
           c = HandleEndpoints endpoints code (m_serverUrl s) \<and>
           \<not> isBad (OpcUaStatus code) \<and>
           m_endpoints (step w c s) = endpoints \<and>
           m_status (step w c s) = OpcUaStatus code"
proof (cases c)
  case (SetServerUrl url)
  with assms show ?thesis
    by (simp add: setServerUrl_endpoints split: if_splits)
next
  case (SetConnection c')
  with assms show ?thesis
    by (simp add: setConnection_endpoints split: if_splits)
next
  case ComponentComplete
  with assms show ?thesis
    by (simp add: componentComplete_def startRequestEndpoints_endpoints split: if_splits)
next
  case StartRequestEndpoints
  with assms show ?thesis
    by (simp add: startRequestEndpoints_endpoints split: if_splits)
next
  case (HandleEndpoints endpoints code requestUrl)
  show ?thesis
  proof (cases "requestUrl = m_serverUrl s")
    case False
    with assms HandleEndpoints show ?thesis
      by (simp add: handleEndpoints_def)
  next
    case match: True
    show ?thesis
    proof (cases "isBad (OpcUaStatus code)")
      case True
      with assms HandleEndpoints match show ?thesis
        by (simp add: handleEndpoints_refused)
    next
      case False
      with HandleEndpoints match show ?thesis
        by (simp add: handleEndpoints_accepted)
    qed
  qed
qed

theorem endpoints_filled_only_by_accepted_completion_witness:
  "m_endpoints (step live (HandleEndpoints [ep1] Good ''opc.tcp://a'') pending) \<noteq> [] \<and>
   m_endpoints (step live (HandleEndpoints [ep1] Good ''opc.tcp://a'') pending) \<noteq> m_endpoints pending \<and>
   (\<exists>endpoints code.
      HandleEndpoints [ep1] Good ''opc.tcp://a'' = HandleEndpoints endpoints code (m_serverUrl pending) \<and>
      \<not> isBad (OpcUaStatus code) \<and>
      m_endpoints (step live (HandleEndpoints [ep1] Good ''opc.tcp://a'') pending) = endpoints \<and>
      m_status (step live (HandleEndpoints [ep1] Good ''opc.tcp://a'') pending) = OpcUaStatus code)"
proof -
  have filled: "m_endpoints (step live (HandleEndpoints [ep1] Good ''opc.tcp://a'') pending) \<noteq> []"
    by (simp add: pending_value handleEndpoints_def emit_def)
  have changed: "m_endpoints (step live (HandleEndpoints [ep1] Good ''opc.tcp://a'') pending)
      \<noteq> m_endpoints pending"
    by (simp add: pending_value handleEndpoints_def emit_def)
  from filled changed endpoints_filled_only_by_accepted_completion [OF filled changed]
  show ?thesis by (intro conjI)
qed

text \<open>
  C2, as stated, fails: in \<open>target_cleared\<close> construction is complete and the address is
  empty, and \<^verbatim>\<open>startRequestEndpoints\<close> leaves the status good and the result set filled.
\<close>

theorem startRequestEndpoints_empty_target_counterexample:
  "m_componentCompleted target_cleared \<and> m_serverUrl target_cleared = [] \<and>
   m_status (startRequestEndpoints live target_cleared) \<noteq> OpcUaStatus BadInvalidArgument \<and>
   m_endpoints (startRequestEndpoints live target_cleared) \<noteq> []"
  by (simp add: target_cleared_value startRequestEndpoints.simps)

text \<open>
  C2, amended: a call of \<^verbatim>\<open>startRequestEndpoints\<close> with an empty address does nothing. The
  status, the result set and every other member keep their values, no signal is emitted
  and no request is sent.
\<close>

theorem startRequestEndpoints_empty_target_noop:
  assumes "m_serverUrl s = []"
  shows "startRequestEndpoints w s = s"
  using assms by (rule startRequestEndpoints_empty_url)

theorem startRequestEndpoints_empty_target_noop_witness:
  "m_serverUrl target_cleared = [] \<and>
   startRequestEndpoints live target_cleared = target_cleared"
proof -
  have empty: "m_serverUrl target_cleared = []"
    by (simp add: target_cleared_value)
  from empty startRequestEndpoints_empty_target_noop [OF empty] show ?thesis
    by (rule conjI)
qed

text \<open>
  C3: a completion whose address differs from the current server URL leaves the whole
  state as it was: result set, status, address, connection, and the log of emitted
  signals, for any result list and any status code.
\<close>

theorem handleEndpoints_stale_discarded:
  assumes "requestUrl \<noteq> m_serverUrl s"
  shows "handleEndpoints endpoints code requestUrl s = s"
  using assms by (simp add: handleEndpoints_def)

theorem handleEndpoints_stale_discarded_witness:
  "''opc.tcp://b'' \<noteq> m_serverUrl pending \<and>
   handleEndpoints [ep1] Good ''opc.tcp://b'' pending = pending"
proof -
  have stale: "''opc.tcp://b'' \<noteq> m_serverUrl pending"
    by (simp add: pending_value)
  from stale handleEndpoints_stale_discarded [OF stale] show ?thesis
    by (rule conjI)
qed

text \<open>
  C4: \<^verbatim>\<open>at\<close> returns the stored description for an index within the result set and the
  default-constructed description for an index at or beyond its end, but a negative index
  reaches \<^verbatim>\<open>QVector::at\<close>, outside the range it allows; the source's documentation promises
  an invalid description for every invalid index.
\<close>

theorem at_negative_row_out_of_range:
  "count answered = 1 \<and> at 0 answered = Inr ep1 \<and>
   at 1 answered = Inr QOpcUaEndpointDescription_default \<and>
   at (- 1) answered = Inl IndexOutOfRange"
  by (simp add: answered_value at_def count_def QVector_at_def)

text \<open>
  C5, as stated, fails: after the setter calls of \<open>no_backend_setup\<close> the connection has no
  backend client, and \<^verbatim>\<open>componentComplete\<close> sends no request.
\<close>

theorem construction_one_request_counterexample:
  "list_all is_setter no_backend_setup \<and>
   requested (run live no_backend_setup init) = [] \<and>
   requested (componentComplete live (run live no_backend_setup init)) = []"
  by (simp add: no_backend_setup_def live_def init_def member_simps)

text \<open>
  C5, amended: no sequence of \<^verbatim>\<open>setServerUrl\<close> and \<^verbatim>\<open>setConnection\<close> calls made before
  \<^verbatim>\<open>componentComplete\<close> sends a request; \<^verbatim>\<open>componentComplete\<close> then sends at most one, and
  exactly one, for the final address through the client of the final connection (or of
  the default connection when none was set), when that address is not empty and that
  connection has a backend client.
\<close>

theorem construction_defers_discovery:
  assumes "\<not> m_componentCompleted s" and "list_all is_setter cs"
  shows "requested (run w cs s) = requested s \<and>
         requested (componentComplete w (run w cs s)) =
           requested s @
             request_for w (final_connection cs (m_connection s)) (final_target cs (m_serverUrl s))"
  using setter_run [OF assms, of w] by (simp add: componentComplete_requested)

theorem construction_defers_discovery_witness:
  "\<not> m_componentCompleted init \<and> list_all is_setter setup_trace \<and>
   requested (run live setup_trace init) = [] \<and>
   requested (componentComplete live (run live setup_trace init)) = [(7, ''opc.tcp://a'')]"
proof -
  have constructing: "\<not> m_componentCompleted init"
    by (simp add: init_def)
  have setters: "list_all is_setter setup_trace"
    by (simp add: setup_trace_def)
  have "request_for live (final_connection setup_trace (m_connection init))
          (final_target setup_trace (m_serverUrl init)) = [(7, ''opc.tcp://a'')]"
    by (simp add: setup_trace_def init_def request_for_def resolved_def live_def)
  moreover have "requested init = []"
    by (simp add: init_def)
  ultimately show ?thesis
    using constructing setters construction_defers_discovery [OF constructing setters, of live]
    by simp
qed

text \<open>
  C6: a completion for the current address with a good status replaces the result set by
  the list delivered and emits \<^verbatim>\<open>endpointsChanged\<close>, \<^verbatim>\<open>countChanged\<close> and \<^verbatim>\<open>statusChanged\<close>,
  in this order, and nothing else.
\<close>

theorem handleEndpoints_good_replaces_and_notifies:
  assumes "requestUrl = m_serverUrl s" and "isGood (OpcUaStatus code)"
  shows "handleEndpoints endpoints code requestUrl s =
           s\<lparr>m_status := OpcUaStatus code, m_endpoints := endpoints,
              emitted := emitted s @ [EndpointsChanged, CountChanged, StatusChanged]\<rparr>"
proof -
  from assms(2) have "\<not> isBad (OpcUaStatus code)"
    by (simp add: isGood_not_isBad)
  with assms(1) show ?thesis
    by (rule handleEndpoints_accepted)
qed

theorem handleEndpoints_good_replaces_and_notifies_witness:
  "''opc.tcp://a'' = m_serverUrl pending \<and> isGood (OpcUaStatus Good) \<and>
   handleEndpoints [ep1] Good ''opc.tcp://a'' pending =
     pending\<lparr>m_status := OpcUaStatus Good, m_endpoints := [ep1],
       emitted := emitted pending @ [EndpointsChanged, CountChanged, StatusChanged]\<rparr>"
proof -
  have match: "''opc.tcp://a'' = m_serverUrl pending"
    by (simp add: pending_value)
  have good: "isGood (OpcUaStatus Good)"
    by simp
  from match good handleEndpoints_good_replaces_and_notifies [OF match good]
  show ?thesis by blast
qed

text \<open>
  C7, as stated, fails in its last part: setting the same address twice sends no request
  at all while construction is not complete (\<open>init\<close>), and none after construction when
  no connection can be resolved (\<open>unresolved\<close>).
\<close>

theorem setServerUrl_twice_one_request_counterexample:
  "''opc.tcp://a'' \<noteq> m_serverUrl init \<and>
   requested (setServerUrl live ''opc.tcp://a'' (setServerUrl live ''opc.tcp://a'' init)) = [] \<and>
   m_componentCompleted unresolved \<and> ''opc.tcp://b'' \<noteq> m_serverUrl unresolved \<and>
   requested (setServerUrl live ''opc.tcp://b'' (setServerUrl live ''opc.tcp://b'' unresolved)) = []"
  by (simp add: unresolved_value init_def live_def member_simps)

text \<open>
  C7, amended: \<^verbatim>\<open>setServerUrl\<close> with the address already stored returns the state as it
  is: no member changes, no signal is emitted, no request is sent. Hence setting an address
  twice leaves the state that setting it once leaves, and the two calls together send at
  most one request, never two: exactly one, for that address, when construction is
  complete, the address differs from the one stored before and is not empty, and the
  connection set (or else the default connection) has a backend client; none otherwise.
\<close>

theorem setServerUrl_same_address_noop:
  "setServerUrl w (m_serverUrl s) s = s \<and>
   setServerUrl w url (setServerUrl w url s) = setServerUrl w url s \<and>
   requested (setServerUrl w url (setServerUrl w url s)) =
     requested s @
       (if url = m_serverUrl s \<or> \<not> m_componentCompleted s then []
        else request_for w (m_connection s) url)"
proof -
  have same: "setServerUrl w (m_serverUrl t) t = t" for t
    by (simp add: setServerUrl_def)
  have "m_serverUrl (setServerUrl w url s) = url"
    by simp
  with same [of "setServerUrl w url s"]
  have twice: "setServerUrl w url (setServerUrl w url s) = setServerUrl w url s"
    by simp
  from same [of s] twice show ?thesis
    by (simp add: setServerUrl_requested)
qed

theorem setServerUrl_same_address_noop_witness:
  "setServerUrl live ''opc.tcp://a'' pending = pending \<and>
   requested (setServerUrl live ''opc.tcp://b'' (setServerUrl live ''opc.tcp://b'' pending)) =
     requested pending @ [(7, ''opc.tcp://b'')]"
proof -
  have url: "m_serverUrl pending = ''opc.tcp://a''"
    by (simp add: pending_value)
  have request: "request_for live (m_connection pending) ''opc.tcp://b'' = [(7, ''opc.tcp://b'')]"
    by (simp add: pending_value request_for_def resolved_def live_def)
  have completed: "m_componentCompleted pending"
    by (simp add: pending_value)
  note twice = setServerUrl_same_address_noop [of live pending "''opc.tcp://b''"]
  from twice have "setServerUrl live (m_serverUrl pending) pending = pending"
    by (rule conjunct1)
  then have first: "setServerUrl live ''opc.tcp://a'' pending = pending"
    by (simp only: url)
  from twice have
    "requested (setServerUrl live ''opc.tcp://b'' (setServerUrl live ''opc.tcp://b'' pending)) =
       requested pending @
         (if ''opc.tcp://b'' = m_serverUrl pending \<or> \<not> m_componentCompleted pending then []
          else request_for live (m_connection pending) ''opc.tcp://b'')"
    by (rule conjunct2 [THEN conjunct2])
  then have second:
    "requested (setServerUrl live ''opc.tcp://b'' (setServerUrl live ''opc.tcp://b'' pending)) =
       requested pending @ [(7, ''opc.tcp://b'')]"
    by (simp add: url request completed)
  from first second show ?thesis
    by (rule conjI)
qed

text \<open>
  C8, as stated, fails: in \<open>unresolved\<close> both guards pass, no connection is set and none is
  registered as default; \<^verbatim>\<open>startRequestEndpoints\<close> returns without emitting any signal.
\<close>

theorem startRequestEndpoints_notifications_counterexample:
  "m_componentCompleted unresolved \<and> m_serverUrl unresolved \<noteq> [] \<and>
   m_connection unresolved = None \<and>
   emitted (startRequestEndpoints live unresolved) = emitted unresolved"
  by (simp add: unresolved_value live_def member_simps)

text \<open>
  C8, amended: a call of \<^verbatim>\<open>startRequestEndpoints\<close> that passes both guards ends by emitting
  \<^verbatim>\<open>endpointsChanged\<close> and then \<^verbatim>\<open>statusChanged\<close> when a connection is set, and also when none
  is set but a default connection is registered; in that branch the two signals follow
  \<^verbatim>\<open>connectionChanged\<close> and come from the call that this signal starts.
\<close>

theorem startRequestEndpoints_ends_with_notifications:
  assumes "m_componentCompleted s" and "m_serverUrl s \<noteq> []"
    and "resolved w (m_connection s) = Some c"
  shows "emitted (startRequestEndpoints w s) =
           emitted s @ (if m_connection s = None then [ConnectionChanged c] else []) @
             [EndpointsChanged, StatusChanged]"
proof (cases "m_connection s")
  case (Some c')
  with assms have "startRequestEndpoints w s =
     emit StatusChanged (emit EndpointsChanged
       (case m_client w c' of
          None \<Rightarrow> s\<lparr>m_endpoints := [], m_status := OpcUaStatus BadNotConnected\<rparr>
        | Some cl \<Rightarrow> s\<lparr>m_endpoints := [],
                         m_status := OpcUaStatus GoodCompletesAsynchronously,
                         requested := requested s @ [(cl, m_serverUrl s)]\<rparr>))"
    by (simp add: startRequestEndpoints_set)
  with Some show ?thesis
    by (simp split: option.splits)
next
  case None
  with assms have "defaultConnection w = Some c"
    by (simp add: resolved_def)
  with assms None show ?thesis
    by (simp add: startRequestEndpoints_default split: option.splits)
qed

theorem startRequestEndpoints_ends_with_notifications_witness:
  "m_componentCompleted unresolved \<and> m_serverUrl unresolved \<noteq> [] \<and>
   resolved live_default (m_connection unresolved) = Some 1 \<and>
   emitted (startRequestEndpoints live_default unresolved) =
     emitted unresolved @ [ConnectionChanged 1, EndpointsChanged, StatusChanged]"
proof -
  have completed: "m_componentCompleted unresolved"
    by (simp add: unresolved_value)
  have target: "m_serverUrl unresolved \<noteq> []"
    by (simp add: unresolved_value)
  have default: "resolved live_default (m_connection unresolved) = Some 1"
    by (simp add: unresolved_value resolved_def live_default_def)
  have "m_connection unresolved = None"
    by (simp add: unresolved_value)
  with completed target default
    startRequestEndpoints_ends_with_notifications [OF completed target default]
  show ?thesis by simp
qed




text \<open>
  C10: a completion for the current address is accepted whenever its status is not bad:
  the list delivered is stored and the three signals are emitted, also for a status other
  than \<open>Good\<close>, such as \<open>GoodCompletesAsynchronously\<close>.
\<close>

theorem handleEndpoints_accepts_every_status_not_bad:
  assumes "requestUrl = m_serverUrl s" and "\<not> isBad (OpcUaStatus code)"
  shows "m_endpoints (handleEndpoints endpoints code requestUrl s) = endpoints \<and>
         m_status (handleEndpoints endpoints code requestUrl s) = OpcUaStatus code \<and>
         emitted (handleEndpoints endpoints code requestUrl s) =
           emitted s @ [EndpointsChanged, CountChanged, StatusChanged]"
  using assms by (simp add: handleEndpoints_accepted)

theorem handleEndpoints_accepts_every_status_not_bad_witness:
  "''opc.tcp://a'' = m_serverUrl pending \<and>
   \<not> isBad (OpcUaStatus GoodCompletesAsynchronously) \<and>
   GoodCompletesAsynchronously \<noteq> Good \<and>
   m_endpoints (handleEndpoints [ep1] GoodCompletesAsynchronously ''opc.tcp://a'' pending) = [ep1] \<and>
   m_status (handleEndpoints [ep1] GoodCompletesAsynchronously ''opc.tcp://a'' pending) =
     OpcUaStatus GoodCompletesAsynchronously \<and>
   emitted (handleEndpoints [ep1] GoodCompletesAsynchronously ''opc.tcp://a'' pending) =
     emitted pending @ [EndpointsChanged, CountChanged, StatusChanged]"
proof -
  have match: "''opc.tcp://a'' = m_serverUrl pending"
    by (simp add: pending_value)
  have not_bad: "\<not> isBad (OpcUaStatus GoodCompletesAsynchronously)"
    by simp
  have "GoodCompletesAsynchronously \<noteq> Good"
    by simp
  with match not_bad handleEndpoints_accepts_every_status_not_bad [OF match not_bad]
  show ?thesis by blast
qed

end
